theory Spec2Isabelle
  imports Complex_Main "HOL-Library.List_Lexorder" "HOL-Library.Char_ord"
    "HOL-Library.Product_Lexorder"
begin

section \<open>Cell values\<close>

text \<open>
  The programs (\<^verbatim>\<open>quality_check_gui.py\<close>, \<^verbatim>\<open>scripts/auto_fill_enhanced.py\<close>,
  \<^verbatim>\<open>scripts/auto_fill_table.py\<close>) work on the scalar cells of pandas data frames read
  from a CSV file and from spreadsheets. A cell is \<^verbatim>\<open>None\<close>, a float (among them NaN),
  an integer, a boolean or a string. A Python \<^verbatim>\<open>str\<close> is modelled by the bytes of its
  UTF-8 encoding, so the Hebrew column names and note texts of the source are byte lists
  here; UTF-8 keeps the code point order, so comparing byte lists orders strings as Python
  does.

  A float is NaN, an infinity, the negative zero, or a finite value given exactly as a
  rational (every finite double is one).
\<close>

datatype pyfloat = NaN | NegInf | NegZero | Fin rat | PosInf

datatype pyval = PNone | PFloat pyfloat | PInt int | PBool bool | PStr string

datatype pyerr = KeyError string | TypeError | IOError string

text \<open>
  What the Python library does and this development does not compute: the shortest
  round-trip text of a finite float (\<^verbatim>\<open>str(x)\<close>), the float a string parses to
  (\<^verbatim>\<open>float(s)\<close>, \<open>None\<close> when it raises \<^verbatim>\<open>ValueError\<close>), the float of an integer
  (\<^verbatim>\<open>float(i)\<close>, \<open>None\<close> when it raises \<^verbatim>\<open>OverflowError\<close>), the text
  \<^verbatim>\<open>s.strip()\<close> without the white space of Unicode at its ends, the text
  \<^verbatim>\<open>s.lower()\<close> with every cased letter of Unicode in lower case, and the order in
  which a \<^verbatim>\<open>for\<close> loop meets the elements of a set, given the elements in the order they
  were added (it follows the hashes, which for texts change from run to run). They are
  parameters of every function below that reaches them, and a theorem with a library
  \<open>L\<close> free in it holds whatever they are.
\<close>

record pylib =
  repr_finite :: "rat \<Rightarrow> string"
  float_of_str :: "string \<Rightarrow> pyfloat option"
  float_of_int :: "int \<Rightarrow> pyfloat option"
  str_strip :: "string \<Rightarrow> string"
  str_lower :: "string \<Rightarrow> string"
  set_iter :: "pyval list \<Rightarrow> pyval list"

text \<open>\<^verbatim>\<open>pd.isna(value)\<close> on a scalar: true of \<^verbatim>\<open>None\<close> and of NaN.\<close>

definition isna :: "pyval \<Rightarrow> bool" where
  "isna v = (v = PNone \<or> v = PFloat NaN)"

subsection \<open>Strings\<close>

text \<open>
  What \<^verbatim>\<open>str.strip()\<close> and \<^verbatim>\<open>str.lower()\<close> compute on a text of ASCII characters:
  the white space among them is tab, line feed, vertical tab, form feed, carriage return,
  the four separators 0x1C to 0x1F and the space, and the cased letters are A to Z. The two
  functions serve the example library below, on ASCII texts only; the functions of the
  program take \<open>str_strip\<close> and \<open>str_lower\<close> of the library.
\<close>

definition ascii_space :: "char \<Rightarrow> bool" where
  "ascii_space c = (c \<in> set [CHR 0x09, CHR 0x0A, CHR 0x0B, CHR 0x0C, CHR 0x0D,
                              CHR 0x1C, CHR 0x1D, CHR 0x1E, CHR 0x1F, CHR 0x20])"

definition ascii_strip :: "string \<Rightarrow> string" where
  "ascii_strip s = rev (dropWhile ascii_space (rev (dropWhile ascii_space s)))"

definition ascii_lower_char :: "char \<Rightarrow> char" where
  "ascii_lower_char c =
     (let n = (of_char c :: nat) in if 65 \<le> n \<and> n \<le> 90 then char_of (n + 32) else c)"

definition ascii_lower :: "string \<Rightarrow> string" where
  "ascii_lower s = map ascii_lower_char s"

text \<open>\<^verbatim>\<open>sep.join(parts)\<close>.\<close>

fun join :: "string \<Rightarrow> string list \<Rightarrow> string" where
  "join sep [] = []"
| "join sep [x] = x"
| "join sep (x # y # ys) = x @ sep @ join sep (y # ys)"

text \<open>The decimal text of an integer, as \<^verbatim>\<open>str(i)\<close> gives it.\<close>

fun digits :: "nat \<Rightarrow> string" where
  "digits n =
     (if n < 10 then [char_of (48 + n)] else digits (n div 10) @ [char_of (48 + n mod 10)])"

declare digits.simps [simp del]

definition str_int :: "int \<Rightarrow> string" where
  "str_int i = (if i < 0 then CHR ''-'' # digits (nat (- i)) else digits (nat i))"

definition str_float :: "pylib \<Rightarrow> pyfloat \<Rightarrow> string" where
  "str_float L f =
     (case f of NaN \<Rightarrow> ''nan'' | NegInf \<Rightarrow> ''-inf'' | PosInf \<Rightarrow> ''inf''
      | NegZero \<Rightarrow> ''-0.0'' | Fin r \<Rightarrow> repr_finite L r)"

text \<open>\<^verbatim>\<open>str(value)\<close>, which is also what an f-string writes for \<^verbatim>\<open>{value}\<close>.\<close>

definition py_str :: "pylib \<Rightarrow> pyval \<Rightarrow> string" where
  "py_str L v =
     (case v of PNone \<Rightarrow> ''None'' | PFloat f \<Rightarrow> str_float L f | PInt i \<Rightarrow> str_int i
      | PBool b \<Rightarrow> (if b then ''True'' else ''False'') | PStr s \<Rightarrow> s)"

text \<open>
  \<^verbatim>\<open>float(value)\<close>; \<open>None\<close> when it raises (\<^verbatim>\<open>TypeError\<close> on \<^verbatim>\<open>None\<close>,
  \<^verbatim>\<open>ValueError\<close> on a string that is no number, \<^verbatim>\<open>OverflowError\<close> on a huge integer).
\<close>

definition py_float :: "pylib \<Rightarrow> pyval \<Rightarrow> pyfloat option" where
  "py_float L v =
     (case v of PNone \<Rightarrow> None | PFloat f \<Rightarrow> Some f | PInt i \<Rightarrow> float_of_int L i
      | PBool b \<Rightarrow> Some (Fin (if b then 1 else 0)) | PStr s \<Rightarrow> float_of_str L s)"

text \<open>
  The library at the few points the examples below touch: \<^verbatim>\<open>float('12')\<close> is 12.0,
  \<^verbatim>\<open>float('5')\<close> is 5.0, the other strings of the examples (the empty one among them)
  are no numbers, a small integer converts exactly, \<^verbatim>\<open>str\<close> of 5.0, 6.0 and 12.0, and
  the texts the examples trim and lower-case are ASCII. It is used to evaluate examples
  only. Its loop over a set meets the elements last added first; \<open>sample_lib_fifo\<close> is
  the same library meeting them first added first. Either order is one a run can show.
\<close>

definition sample_lib :: pylib where
  "sample_lib =
     \<lparr> repr_finite = (\<lambda>r. if r = 5 then ''5.0'' else if r = 6 then ''6.0''
                           else if r = 12 then ''12.0'' else ''0.0''),
       float_of_str = (\<lambda>s. if s = ''12'' then Some (Fin 12)
                            else if s = ''5'' then Some (Fin 5) else None),
       float_of_int = (\<lambda>i. Some (Fin (of_int i))),
       str_strip = ascii_strip,
       str_lower = ascii_lower,
       set_iter = rev \<rparr>"

definition sample_lib_fifo :: pylib where
  "sample_lib_fifo = sample_lib \<lparr> set_iter := (\<lambda>xs. xs) \<rparr>"

section \<open>Field normaliser and value comparator\<close>

text \<open>
  \<^verbatim>\<open>TableFiller.clean_numeric_field\<close> (\<^verbatim>\<open>quality_check_gui.py\<close> lines 33 to 40, the same
  text in \<^verbatim>\<open>auto_fill_enhanced.py\<close>). The bare \<^verbatim>\<open>except\<close> catches whatever the
  conversion raises and gives the value back.
\<close>

definition clean_numeric_field :: "pylib \<Rightarrow> pyval \<Rightarrow> pyval" where
  "clean_numeric_field L value =
     (if isna value \<or> value = PStr ''<Null>'' \<or> value = PStr ''nan'' \<or> value = PStr ''''
      then PFloat NaN
      else (case py_float L value of Some f \<Rightarrow> PFloat f | None \<Rightarrow> value))"

text \<open>
  \<^verbatim>\<open>clean_numeric_field\<close> of \<^verbatim>\<open>scripts/auto_fill_table.py\<close> (lines 14 to 21), the older
  stand-alone script: it has no test for the empty string.
\<close>

definition clean_numeric_field_script :: "pylib \<Rightarrow> pyval \<Rightarrow> pyval" where
  "clean_numeric_field_script L value =
     (if isna value \<or> value = PStr ''<Null>'' \<or> value = PStr ''nan''
      then PFloat NaN
      else (case py_float L value of Some f \<Rightarrow> PFloat f | None \<Rightarrow> value))"

text \<open>
  \<^verbatim>\<open>TableFiller.compare_values\<close> (\<^verbatim>\<open>quality_check_gui.py\<close> lines 42 to 53, the same text
  in \<^verbatim>\<open>auto_fill_enhanced.py\<close>). On scalar cells \<^verbatim>\<open>pd.isna\<close> returns a boolean,
  and \<^verbatim>\<open>str\<close>, \<^verbatim>\<open>strip\<close> and \<^verbatim>\<open>lower\<close> return a string: no statement of the function
  can raise, so its result is a plain boolean.
\<close>

definition compare_values :: "pylib \<Rightarrow> pyval \<Rightarrow> pyval \<Rightarrow> bool" where
  "compare_values L val1 val2 =
     (if isna val1 \<and> isna val2 then True
      else if isna val1 \<or> isna val2 then False
      else (let str1 = str_lower L (str_strip L (py_str L val1));
                str2 = str_lower L (str_strip L (py_str L val2))
            in str1 = str2))"

text \<open>
  \<^verbatim>\<open>compare_values\<close> of \<^verbatim>\<open>scripts/auto_fill_table.py\<close> (lines 23 to 32): the same null
  handling, the trimmed texts compared as they are, without \<^verbatim>\<open>lower\<close>.
\<close>

definition compare_values_script :: "pylib \<Rightarrow> pyval \<Rightarrow> pyval \<Rightarrow> bool" where
  "compare_values_script L val1 val2 =
     (if isna val1 \<and> isna val2 then True
      else if isna val1 \<or> isna val2 then False
      else str_strip L (py_str L val1) = str_strip L (py_str L val2))"

section \<open>Data frames\<close>

text \<open>
  A data frame is its column names and its rows, each row the cells in column order. A
  row taken out of a frame (\<^verbatim>\<open>df.iloc[0]\<close>) is a series: the cells under the frame's
  column names. Column names are taken to be distinct, as \<^verbatim>\<open>read_csv\<close> and
  \<^verbatim>\<open>read_excel\<close> make them.
\<close>

record frame =
  columns :: "string list"
  frame_rows :: "pyval list list"

type_synonym series = "string list \<times> pyval list"

text \<open>\<^verbatim>\<open>series.get(name, default)\<close>: the cell under the name, the default without it.\<close>

definition series_get :: "series \<Rightarrow> string \<Rightarrow> pyval \<Rightarrow> pyval" where
  "series_get s name dflt =
     (case map_of (zip (fst s) (snd s)) name of Some v \<Rightarrow> v | None \<Rightarrow> dflt)"

text \<open>
  \<^verbatim>\<open>df[name]\<close>: the cells of a column, \<^verbatim>\<open>KeyError\<close> when the frame has no such column.
  A cell missing from a short row reads as NaN.
\<close>

definition getitem :: "frame \<Rightarrow> string \<Rightarrow> pyerr + pyval list" where
  "getitem df name =
     (if name \<in> set (columns df)
      then Inr (map (\<lambda>r. series_get (columns df, r) name (PFloat NaN)) (frame_rows df))
      else Inl (KeyError name))"

text \<open>
  Python's \<^verbatim>\<open>==\<close> on scalars: strings by content, numbers (integers, booleans, floats) by
  value, so that \<^verbatim>\<open>1 == 1.0 == True\<close>; NaN equals nothing. A number is placed by the
  pair of its class (\<open>-1\<close> for minus infinity, \<open>1\<close> for plus infinity, \<open>0\<close> otherwise)
  and its value, and the lexicographic order of the pairs is the numeric order.
\<close>

definition is_num :: "pyval \<Rightarrow> bool" where
  "is_num v = (case v of PInt i \<Rightarrow> True | PBool b \<Rightarrow> True | PFloat f \<Rightarrow> f \<noteq> NaN | _ \<Rightarrow> False)"

definition num_key :: "pyval \<Rightarrow> int \<times> rat" where
  "num_key v =
     (case v of PInt i \<Rightarrow> (0, of_int i) | PBool b \<Rightarrow> (0, if b then 1 else 0)
      | PFloat f \<Rightarrow> (case f of NegInf \<Rightarrow> (- 1, 0) | PosInf \<Rightarrow> (1, 0) | Fin r \<Rightarrow> (0, r)
                     | _ \<Rightarrow> (0, 0))
      | _ \<Rightarrow> (0, 0))"

definition is_text :: "pyval \<Rightarrow> bool" where
  "is_text v = (case v of PStr s \<Rightarrow> True | _ \<Rightarrow> False)"

definition the_str :: "pyval \<Rightarrow> string" where
  "the_str v = (case v of PStr s \<Rightarrow> s | _ \<Rightarrow> [])"

definition py_eq :: "pyval \<Rightarrow> pyval \<Rightarrow> bool" where
  "py_eq a b =
     (case (a, b) of (PStr s, PStr t) \<Rightarrow> s = t | (PNone, PNone) \<Rightarrow> True
      | _ \<Rightarrow> is_num a \<and> is_num b \<and> num_key a = num_key b)"

text \<open>
  \<^verbatim>\<open>df[df[name] == link]\<close>: the rows whose cell under the name equals the link, in frame
  order.
\<close>

definition select_eq :: "frame \<Rightarrow> string \<Rightarrow> pyval \<Rightarrow> pyerr + pyval list list" where
  "select_eq df name link =
     (if name \<in> set (columns df)
      then Inr (filter (\<lambda>r. py_eq (series_get (columns df, r) name (PFloat NaN)) link) (frame_rows df))
      else Inl (KeyError name))"

text \<open>
  \<^verbatim>\<open>dropna()\<close>, \<^verbatim>\<open>unique()\<close> and \<^verbatim>\<open>set(...)\<close>. A Python set is modelled by the list
  of its elements, one per class of equal values; the union of two sets is the set of both
  lists. The order of that list stands for the iteration order of the set, which the
  program never relies on: it sorts the set first.
\<close>

definition dropna :: "pyval list \<Rightarrow> pyval list" where
  "dropna xs = filter (\<lambda>v. \<not> isna v) xs"

fun py_set :: "pyval list \<Rightarrow> pyval list" where
  "py_set [] = []"
| "py_set (x # xs) = x # py_set (filter (\<lambda>y. \<not> py_eq x y) xs)"

definition unique :: "pyval list \<Rightarrow> pyval list" where
  "unique xs = py_set xs"

definition set_union :: "pyval list \<Rightarrow> pyval list \<Rightarrow> pyval list" where
  "set_union xs ys = py_set (xs @ ys)"

text \<open>
  \<^verbatim>\<open>sorted(xs)\<close> on values that are not null (the program drops the nulls before): strings
  sort among themselves and numbers among themselves; with both kinds in the list a
  comparison of a string with a number raises \<^verbatim>\<open>TypeError\<close>.
\<close>

definition py_sorted :: "pyval list \<Rightarrow> pyerr + pyval list" where
  "py_sorted xs =
     (if length xs \<le> 1 then Inr xs
      else if list_all is_text xs then Inr (sort_key the_str xs)
      else if list_all is_num xs then Inr (sort_key num_key xs)
      else Inl TypeError)"

section \<open>Reconciliation engine\<close>

text \<open>
  The column names and note texts of the source, as the bytes of their UTF-8 encoding.
  In source order: the file link (the key), disk, shipment, box, building file, request
  number, block (gush), parcel (helka), plot (migrash) and address columns; the prefix of
  a mismatch note, the full match note, the two single-source notes, and the sign U+2260
  written between two conflicting values.
\<close>

definition col_link :: string where
  "col_link = [CHR 0xD7, CHR 0xA7, CHR 0xD7, CHR 0x99, CHR 0xD7, CHR 0xA9, CHR 0xD7, CHR 0x95, CHR 0xD7, CHR 0xA8, CHR 0x20, CHR 0xD7, CHR 0x9C, CHR 0xD7, CHR 0xA7, CHR 0xD7, CHR 0x95, CHR 0xD7, CHR 0x91, CHR 0xD7, CHR 0xA5]"

definition col_disk :: string where
  "col_disk = [CHR 0xD7, CHR 0x93, CHR 0xD7, CHR 0x99, CHR 0xD7, CHR 0xA1, CHR 0xD7, CHR 0xA7]"

definition col_shipment :: string where
  "col_shipment = [CHR 0xD7, CHR 0x9E, CHR 0xD7, CHR 0xA9, CHR 0xD7, CHR 0x9C, CHR 0xD7, CHR 0x95, CHR 0xD7, CHR 0x97]"

definition col_box :: string where
  "col_box = [CHR 0xD7, CHR 0x90, CHR 0xD7, CHR 0xA8, CHR 0xD7, CHR 0x92, CHR 0xD7, CHR 0x96]"

definition col_building_file :: string where
  "col_building_file = [CHR 0xD7, CHR 0xAA, CHR 0xD7, CHR 0x99, CHR 0xD7, CHR 0xA7, CHR 0x20, CHR 0xD7, CHR 0x91, CHR 0xD7, CHR 0xA0, CHR 0xD7, CHR 0x99, CHR 0xD7, CHR 0x99, CHR 0xD7, CHR 0x9F]"

definition col_request_no :: string where
  "col_request_no = [CHR 0xD7, CHR 0x9E, CHR 0xD7, CHR 0xA1, CHR 0xD7, CHR 0xA4, CHR 0xD7, CHR 0xA8, CHR 0x20, CHR 0xD7, CHR 0x91, CHR 0xD7, CHR 0xA7, CHR 0xD7, CHR 0xA9, CHR 0xD7, CHR 0x94]"

definition col_gush :: string where
  "col_gush = [CHR 0xD7, CHR 0x92, CHR 0xD7, CHR 0x95, CHR 0xD7, CHR 0xA9]"

definition col_helka :: string where
  "col_helka = [CHR 0xD7, CHR 0x97, CHR 0xD7, CHR 0x9C, CHR 0xD7, CHR 0xA7, CHR 0xD7, CHR 0x94]"

definition col_migrash :: string where
  "col_migrash = [CHR 0xD7, CHR 0x9E, CHR 0xD7, CHR 0x92, CHR 0xD7, CHR 0xA8, CHR 0xD7, CHR 0xA9]"

definition col_address :: string where
  "col_address = [CHR 0xD7, CHR 0x9B, CHR 0xD7, CHR 0xAA, CHR 0xD7, CHR 0x95, CHR 0xD7, CHR 0x91, CHR 0xD7, CHR 0xAA]"

definition note_mismatch_prefix :: string where
  "note_mismatch_prefix = [CHR 0xD7, CHR 0x90, CHR 0xD7, CHR 0x99, CHR 0x20, CHR 0xD7, CHR 0x94, CHR 0xD7, CHR 0xAA, CHR 0xD7, CHR 0x90, CHR 0xD7, CHR 0x9E, CHR 0xD7, CHR 0x94, CHR 0x3A, CHR 0x20]"

definition note_full_match :: string where
  "note_full_match = [CHR 0xD7, CHR 0x94, CHR 0xD7, CHR 0xAA, CHR 0xD7, CHR 0x90, CHR 0xD7, CHR 0x9E, CHR 0xD7, CHR 0x94, CHR 0x20, CHR 0xD7, CHR 0x9E, CHR 0xD7, CHR 0x9C, CHR 0xD7, CHR 0x90, CHR 0xD7, CHR 0x94]"

definition note_complot_only :: string where
  "note_complot_only = [CHR 0xD7, CHR 0xA0, CHR 0xD7, CHR 0x9E, CHR 0xD7, CHR 0xA6, CHR 0xD7, CHR 0x90, CHR 0x20, CHR 0xD7, CHR 0x91, CHR 0xD7, CHR 0xA7, CHR 0xD7, CHR 0x95, CHR 0xD7, CHR 0x9E, CHR 0xD7, CHR 0xA4, CHR 0xD7, CHR 0x9C, CHR 0xD7, CHR 0x95, CHR 0xD7, CHR 0x98, CHR 0x20, CHR 0xD7, CHR 0x91, CHR 0xD7, CHR 0x9C, CHR 0xD7, CHR 0x91, CHR 0xD7, CHR 0x93]"

definition note_layer_only :: string where
  "note_layer_only = [CHR 0xD7, CHR 0xA0, CHR 0xD7, CHR 0x9E, CHR 0xD7, CHR 0xA6, CHR 0xD7, CHR 0x90, CHR 0x20, CHR 0xD7, CHR 0x91, CHR 0xD7, CHR 0xA9, CHR 0xD7, CHR 0x9B, CHR 0xD7, CHR 0x91, CHR 0xD7, CHR 0x94, CHR 0x20, CHR 0xD7, CHR 0x91, CHR 0xD7, CHR 0x9C, CHR 0xD7, CHR 0x91, CHR 0xD7, CHR 0x93]"

definition neq_sign :: string where
  "neq_sign = [CHR 0xE2, CHR 0x89, CHR 0xA0]"

text \<open>
  One row of the filled table: the dictionary \<^verbatim>\<open>row\<close> that the loop of
  \<^verbatim>\<open>process_matches\<close> builds. Its keys are twenty-one fixed texts of the source, named
  here by a datatype: the ten columns copied from the Complot record, the five copied from
  the Layer record, the five comparison columns and the note column. The dictionary is a
  map from these keys to cell values; a key the loop never sets is \<open>None\<close>.
\<close>

datatype out_col =
  C_link | C_disk | C_shipment | C_box | C_building_file | C_request_no
  | C_gush | C_helka | C_migrash | C_address
  | L_link | L_gush | L_helka | L_migrash | L_address
  | Cmp_link | Cmp_gush | Cmp_helka | Cmp_migrash | Cmp_address
  | Remarks

type_synonym merged_row = "out_col \<rightharpoonup> pyval"

definition empty_row :: merged_row where
  "empty_row = Map.empty"

text \<open>The ten assignments from the Complot record \<^verbatim>\<open>c\<close> (lines 113 to 122).\<close>

definition fill_complot :: "series \<Rightarrow> merged_row \<Rightarrow> merged_row" where
  "fill_complot c row =
     row (C_link \<mapsto> series_get c col_link (PStr ''''),
          C_disk \<mapsto> series_get c col_disk (PStr ''''),
          C_shipment \<mapsto> series_get c col_shipment (PStr ''''),
          C_box \<mapsto> series_get c col_box (PStr ''''),
          C_building_file \<mapsto> series_get c col_building_file (PStr ''''),
          C_request_no \<mapsto> series_get c col_request_no (PStr ''''),
          C_gush \<mapsto> series_get c col_gush (PStr ''''),
          C_helka \<mapsto> series_get c col_helka (PStr ''''),
          C_migrash \<mapsto> series_get c col_migrash (PStr ''''),
          C_address \<mapsto> series_get c col_address (PStr ''''))"

text \<open>The five assignments from the Layer record \<^verbatim>\<open>l\<close> (lines 128 to 132).\<close>

definition fill_layer :: "series \<Rightarrow> merged_row \<Rightarrow> merged_row" where
  "fill_layer l row =
     row (L_link \<mapsto> series_get l col_link (PStr ''''),
          L_gush \<mapsto> series_get l col_gush (PStr ''''),
          L_helka \<mapsto> series_get l col_helka (PStr ''''),
          L_migrash \<mapsto> series_get l col_migrash (PStr ''''),
          L_address \<mapsto> series_get l col_address (PStr ''''))"

text \<open>
  The text appended for a disagreeing block, parcel or plot field (lines 155, 157, 159):
  the field name and, in brackets, both values around the sign.
\<close>

definition mismatch_text :: "pylib \<Rightarrow> string \<Rightarrow> series \<Rightarrow> series \<Rightarrow> string" where
  "mismatch_text L name c l =
     name @ '' ('' @ py_str L (series_get c name PNone) @ '' '' @ neq_sign @ '' '' @
       py_str L (series_get l name PNone) @ '')''"

text \<open>
  The branch taken when both sources have the link (lines 136 to 168): the five flags,
  the list of discrepancies, the note, and the two counters.
\<close>

definition compare_records ::
  "pylib \<Rightarrow> series \<Rightarrow> series \<Rightarrow> merged_row \<times> nat \<times> nat \<Rightarrow> merged_row \<times> nat \<times> nat" where
  "compare_records L c l st =
     (case st of (row, perfect_matches, partial_matches) \<Rightarrow>
       (let gush_match =
              compare_values L (series_get c col_gush PNone) (series_get l col_gush PNone);
            helka_match =
              compare_values L (series_get c col_helka PNone) (series_get l col_helka PNone);
            migrash_match =
              compare_values L (series_get c col_migrash PNone) (series_get l col_migrash PNone);
            address_match =
              compare_values L (series_get c col_address PNone) (series_get l col_address PNone);
            row1 = row (Cmp_link \<mapsto> PBool True, Cmp_gush \<mapsto> PBool gush_match,
                        Cmp_helka \<mapsto> PBool helka_match, Cmp_migrash \<mapsto> PBool migrash_match,
                        Cmp_address \<mapsto> PBool address_match);
            d0 = [];
            d1 = (if \<not> gush_match then d0 @ [mismatch_text L col_gush c l] else d0);
            d2 = (if \<not> helka_match then d1 @ [mismatch_text L col_helka c l] else d1);
            d3 = (if \<not> migrash_match then d2 @ [mismatch_text L col_migrash c l] else d2);
            discrepancies = (if \<not> address_match then d3 @ [col_address] else d3)
        in if discrepancies \<noteq> []
           then (row1 (Remarks \<mapsto> PStr (note_mismatch_prefix @ join '', '' discrepancies)),
                 perfect_matches, partial_matches + 1)
           else (row1 (Remarks \<mapsto> PStr note_full_match),
                 perfect_matches + 1, partial_matches)))"

text \<open>
  The body of the loop of \<^verbatim>\<open>process_matches\<close> for one link (lines 107 to 174). The
  state is the list \<^verbatim>\<open>rows\<close> and the two counters.
\<close>

definition process_link ::
  "pylib \<Rightarrow> frame \<Rightarrow> frame \<Rightarrow> pyval \<Rightarrow> merged_row list \<times> nat \<times> nat \<Rightarrow>
   pyerr + merged_row list \<times> nat \<times> nat" where
  "process_link L complot_df layer_df link st =
     (case st of (rows, perfect_matches, partial_matches) \<Rightarrow>
       (case select_eq complot_df col_link link of
          Inl e \<Rightarrow> Inl e
        | Inr complot_match \<Rightarrow>
            (let row1 = (if complot_match \<noteq> []
                         then fill_complot (columns complot_df, hd complot_match) empty_row
                         else empty_row)
             in (case select_eq layer_df col_link link of
                   Inl e \<Rightarrow> Inl e
                 | Inr layer_match \<Rightarrow>
                     (let row2 = (if layer_match \<noteq> []
                                  then fill_layer (columns layer_df, hd layer_match) row1
                                  else row1)
                      in if complot_match \<noteq> [] \<and> layer_match \<noteq> []
                         then (case compare_records L (columns complot_df, hd complot_match)
                                      (columns layer_df, hd layer_match)
                                      (row2, perfect_matches, partial_matches) of
                                 (row3, perfect', partial') \<Rightarrow>
                                   Inr (rows @ [row3], perfect', partial'))
                         else if complot_match \<noteq> []
                         then Inr (rows @ [row2 (Remarks \<mapsto> PStr note_complot_only)],
                                   perfect_matches, partial_matches)
                         else if layer_match \<noteq> []
                         then Inr (rows @ [row2 (Remarks \<mapsto> PStr note_layer_only)],
                                   perfect_matches, partial_matches)
                         else Inr (rows @ [row2], perfect_matches, partial_matches))))))"

text \<open>The loop \<^verbatim>\<open>for link in sorted(all_links)\<close>; an exception ends it.\<close>

fun match_loop ::
  "pylib \<Rightarrow> frame \<Rightarrow> frame \<Rightarrow> pyval list \<Rightarrow> merged_row list \<times> nat \<times> nat \<Rightarrow>
   pyerr + merged_row list \<times> nat \<times> nat" where
  "match_loop L complot_df layer_df [] st = Inr st"
| "match_loop L complot_df layer_df (link # links) st =
     (case process_link L complot_df layer_df link st of
        Inl e \<Rightarrow> Inl e
      | Inr st' \<Rightarrow> match_loop L complot_df layer_df links st')"

text \<open>
  \<^verbatim>\<open>TableFiller.process_matches\<close> (\<^verbatim>\<open>quality_check_gui.py\<close> lines 91 to 178; the same
  statements in \<^verbatim>\<open>auto_fill_enhanced.py\<close>, which adds printing and report lines). The
  result is the filled table \<^verbatim>\<open>self.filled_df\<close> with the three numbers returned:
  perfect matches, partial matches and the number of rows of the filled table.
\<close>

definition process_matches ::
  "pylib \<Rightarrow> frame \<Rightarrow> frame \<Rightarrow> pyerr + merged_row list \<times> nat \<times> nat \<times> nat" where
  "process_matches L complot_df layer_df =
     (case getitem complot_df col_link of
        Inl e \<Rightarrow> Inl e
      | Inr complot_keys \<Rightarrow>
          (case getitem layer_df col_link of
             Inl e \<Rightarrow> Inl e
           | Inr layer_keys \<Rightarrow>
               (let complot_links = py_set (unique (dropna complot_keys));
                    layer_links = py_set (unique (dropna layer_keys));
                    all_links = set_union complot_links layer_links
                in (case py_sorted all_links of
                      Inl e \<Rightarrow> Inl e
                    | Inr links \<Rightarrow>
                        (case match_loop L complot_df layer_df links ([], 0, 0) of
                           Inl e \<Rightarrow> Inl e
                         | Inr (rows, perfect_matches, partial_matches) \<Rightarrow>
                             Inr (rows, perfect_matches, partial_matches, length rows))))))"

section \<open>Writing the results\<close>

text \<open>
  The fields of a \<^verbatim>\<open>TableFiller\<close> object that \<^verbatim>\<open>save_results\<close> reads: the three input
  paths, the filled table and, in \<^verbatim>\<open>auto_fill_enhanced.py\<close>, the list of report lines
  collected during the run.
\<close>

record filler =
  complot_path :: string
  layer_path :: string
  recommendations_path :: string
  filled_df :: "merged_row list"
  report :: "string list"

text \<open>
  The files a call leaves behind, in the order they are written: the spreadsheet written
  by \<^verbatim>\<open>to_excel\<close> and the text file written through \<^verbatim>\<open>open(..., 'w')\<close>. Whether the
  library call fails is given from outside: \<open>excel_error\<close> is the exception
  \<^verbatim>\<open>to_excel\<close> raises for a path (\<open>None\<close> when it succeeds), \<open>open_error\<close> the
  exception of opening and writing the text file.
\<close>

datatype event = ToExcel string "merged_row list" | WriteFile string string

record pyio =
  excel_error :: "string \<Rightarrow> pyerr option"
  open_error :: "string \<Rightarrow> pyerr option"

text \<open>
  \<^verbatim>\<open>s.replace(old, new)\<close>: every occurrence of \<open>old\<close>, from the left, without overlap;
  with an empty \<open>old\<close> the new text goes before every character and at the end.
\<close>

function py_replace :: "string \<Rightarrow> string \<Rightarrow> string \<Rightarrow> string" where
  "py_replace old new s =
     (if old = [] then new @ concat (map (\<lambda>c. c # new) s)
      else if s = [] then []
      else if take (length old) s = old then new @ py_replace old new (drop (length old) s)
      else hd s # py_replace old new (tl s))"
  by pat_completeness auto
termination
  by (relation "measure (\<lambda>(old, new, s). length s)") auto

declare py_replace.simps [simp del]

definition newline :: string where
  "newline = [CHR 0x0A]"

text \<open>
  The four lines both programs write first (lines 188 to 191): the banner, a rule of fifty
  equals signs, the generation time and a second rule followed by an empty line. The time
  text \<^verbatim>\<open>datetime.now().strftime(...)\<close> is the parameter \<open>now\<close>.
\<close>

definition report_header :: "string \<Rightarrow> string" where
  "report_header now =
     ''Automatic Table Filling Report'' @ newline @
     replicate 50 CHR ''='' @ newline @
     ''Generated: '' @ now @ newline @
     replicate 50 CHR ''='' @ newline @ newline"

text \<open>What \<^verbatim>\<open>quality_check_gui.py\<close> writes to the report (lines 188 to 195).\<close>

definition report_text :: "string \<Rightarrow> filler \<Rightarrow> string \<Rightarrow> string" where
  "report_text now self output_path =
     report_header now @
     ''Complot file: '' @ complot_path self @ newline @
     ''Layer file: '' @ layer_path self @ newline @
     ''Recommendations file: '' @ recommendations_path self @ newline @
     ''Output file: '' @ output_path @ newline"


text \<open>
  \<^verbatim>\<open>TableFiller.save_results\<close> of \<^verbatim>\<open>quality_check_gui.py\<close> (lines 180 to 197): the table
  first, then the report; an exception of either step ends the call. The result is the
  pair of paths or the exception, together with the files written so far.
\<close>

definition save_results ::
  "pyio \<Rightarrow> string \<Rightarrow> filler \<Rightarrow> string \<Rightarrow> event list \<Rightarrow> (pyerr + string \<times> string) \<times> event list" where
  "save_results io now self output_path trace =
     (case excel_error io output_path of
        Some e \<Rightarrow> (Inl e, trace)
      | None \<Rightarrow>
          (let trace1 = trace @ [ToExcel output_path (filled_df self)];
               report_path = py_replace ''.xlsx'' ''_report.txt'' output_path
           in (case open_error io report_path of
                 Some e \<Rightarrow> (Inl e, trace1)
               | None \<Rightarrow>
                   (Inr (output_path, report_path),
                    trace1 @ [WriteFile report_path (report_text now self output_path)]))))"







section \<open>Vocabulary of the properties\<close>

text \<open>
  The cells of the key column of a frame, its text keys, and the frames the engine is
  meant for: the key column is there and each of its cells is a text or null.
\<close>

definition key_cells :: "frame \<Rightarrow> pyval list" where
  "key_cells df =
     map (\<lambda>r. series_get (columns df, r) col_link (PFloat NaN)) (frame_rows df)"

definition text_keys :: "frame \<Rightarrow> string set" where
  "text_keys df = the_str ` set (filter is_text (key_cells df))"

definition text_keyed :: "frame \<Rightarrow> bool" where
  "text_keyed df =
     (col_link \<in> set (columns df) \<and> list_all (\<lambda>v. isna v \<or> is_text v) (key_cells df))"

text \<open>The key a merged row stands for: its Complot link, else its Layer link.\<close>

definition row_key :: "merged_row \<Rightarrow> pyval" where
  "row_key row =
     (case row C_link of Some v \<Rightarrow> v
      | None \<Rightarrow> (case row L_link of Some v \<Rightarrow> v | None \<Rightarrow> PNone))"

text \<open>
  The note as the specification words it: the four attribute fields in their order, each
  marked with whether a disagreement echoes the two values; the fields that disagree; the
  text for one of them; and the note built from them.
\<close>

definition attribute_fields :: "(string \<times> bool) list" where
  "attribute_fields =
     [(col_gush, True), (col_helka, True), (col_migrash, True), (col_address, False)]"

definition agrees :: "pylib \<Rightarrow> series \<Rightarrow> series \<Rightarrow> string \<Rightarrow> bool" where
  "agrees L c l name = compare_values L (series_get c name PNone) (series_get l name PNone)"

definition disagreeing :: "pylib \<Rightarrow> series \<Rightarrow> series \<Rightarrow> (string \<times> bool) list" where
  "disagreeing L c l = filter (\<lambda>fld. \<not> agrees L c l (fst fld)) attribute_fields"

definition describe :: "pylib \<Rightarrow> series \<Rightarrow> series \<Rightarrow> string \<times> bool \<Rightarrow> string" where
  "describe L c l fld =
     (if snd fld
      then fst fld @ '' ('' @ py_str L (series_get c (fst fld) PNone) @ '' '' @ neq_sign @
             '' '' @ py_str L (series_get l (fst fld) PNone) @ '')''
      else fst fld)"

definition note_spec :: "pylib \<Rightarrow> series \<Rightarrow> series \<Rightarrow> string" where
  "note_spec L c l =
     (if disagreeing L c l = [] then note_full_match
      else note_mismatch_prefix @ join '', '' (map (describe L c l) (disagreeing L c l)))"

text \<open>
  Example tables. Complot has the links A1 and C3 and a row without link; Layer has B2
  and A1. For A1 the block agrees (12.0), the parcel differs (5.0 against 6.0), the plot
  is null in both, and the addresses differ in case and spacing only.
\<close>

definition example_complot :: frame where
  "example_complot =
     \<lparr> columns = [col_link, col_gush, col_helka, col_migrash, col_address],
       frame_rows =
         [[PStr ''A1'', PFloat (Fin 12), PFloat (Fin 5), PFloat NaN, PStr ''Main St 1''],
          [PStr ''C3'', PFloat (Fin 12), PFloat (Fin 6), PFloat NaN, PFloat NaN],
          [PFloat NaN, PFloat (Fin 5), PFloat (Fin 5), PFloat NaN, PStr ''x'']] \<rparr>"

definition example_layer :: frame where
  "example_layer =
     \<lparr> columns = [col_link, col_gush, col_helka, col_migrash, col_address],
       frame_rows =
         [[PStr ''B2'', PFloat (Fin 5), PFloat (Fin 5), PFloat NaN, PFloat NaN],
          [PStr ''A1'', PFloat (Fin 12), PFloat (Fin 6), PFloat NaN, PStr ''main st 1 '']] \<rparr>"

definition example_filler :: filler where
  "example_filler =
     \<lparr> complot_path = ''c.csv'', layer_path = ''l.xlsx'', recommendations_path = ''r.xlsx'',
       filled_df = [], report = [] \<rparr>"

definition io_ok :: pyio where
  "io_ok = \<lparr> excel_error = (\<lambda>p. None), open_error = (\<lambda>p. None) \<rparr>"

definition io_excel_fails :: pyio where
  "io_excel_fails = \<lparr> excel_error = (\<lambda>p. Some (IOError p)), open_error = (\<lambda>p. None) \<rparr>"

section \<open>The stand-alone script\<close>

text \<open>
  \<^verbatim>\<open>scripts/auto_fill_table.py\<close> fills a copy of the recommendations table in place
  (\<^verbatim>\<open>filled_df = rec_df.copy()\<close>, line 70). A column of that table is one of the
  twenty-one names above or another column the recommendations table came with; a row
  maps columns to cells, and a cell a row has no entry for is NaN. Rows are labelled by
  their position, as \<^verbatim>\<open>read_excel\<close> and \<^verbatim>\<open>ignore_index=True\<close> label them.
\<close>

datatype tcol = Out out_col | Other string

record table =
  tcolumns :: "tcol list"
  trows :: "(tcol \<rightharpoonup> pyval) list"

text \<open>
  Lines 98 and 99: \<^verbatim>\<open>pd.concat\<close> with a frame of one empty series appends a row of
  NaN.
\<close>

definition add_row :: "table \<Rightarrow> table" where
  "add_row t = t \<lparr> trows := trows t @ [Map.empty] \<rparr>"

text \<open>
  \<^verbatim>\<open>filled_df.loc[i, col] = v\<close>: the cell of row \<open>i\<close> under the column, a column the
  table does not have being added to it. With no row \<open>i\<close> pandas appends one; the loop
  never gets there, since it adds the row before.
\<close>

definition loc_set :: "nat \<Rightarrow> tcol \<Rightarrow> pyval \<Rightarrow> table \<Rightarrow> table" where
  "loc_set i col v t =
     \<lparr> tcolumns = (if col \<in> set (tcolumns t) then tcolumns t else tcolumns t @ [col]),
       trows = (if i < length (trows t) then (trows t) [i := ((trows t) ! i) (col \<mapsto> v)]
                else trows t @ [Map.empty (col \<mapsto> v)]) \<rparr>"

text \<open>
  \<^verbatim>\<open>filled_df.dropna(how='all')\<close> (line 174): the rows with a cell that is not null, in
  their order.
\<close>

definition dropna_all :: "table \<Rightarrow> table" where
  "dropna_all t =
     t \<lparr> trows :=
           filter (\<lambda>r. list_ex (\<lambda>col. case r col of None \<Rightarrow> False | Some v \<Rightarrow> \<not> isna v)
                          (tcolumns t))
             (trows t) \<rparr>"

text \<open>
  The assignments of lines 104 to 113 and of lines 118 to 122, in source order: the column
  of the table and the field of the record it is read from.
\<close>

definition complot_fields :: "(out_col \<times> string) list" where
  "complot_fields =
     [(C_link, col_link), (C_disk, col_disk), (C_shipment, col_shipment), (C_box, col_box),
      (C_building_file, col_building_file), (C_request_no, col_request_no),
      (C_gush, col_gush), (C_helka, col_helka), (C_migrash, col_migrash),
      (C_address, col_address)]"

definition layer_fields :: "(out_col \<times> string) list" where
  "layer_fields =
     [(L_link, col_link), (L_gush, col_gush), (L_helka, col_helka),
      (L_migrash, col_migrash), (L_address, col_address)]"

definition fill_fields :: "(out_col \<times> string) list \<Rightarrow> series \<Rightarrow> nat \<Rightarrow> table \<Rightarrow> table" where
  "fill_fields flds row i t =
     fold (\<lambda>fld. loc_set i (Out (fst fld)) (series_get row (snd fld) (PStr ''''))) flds t"

text \<open>The prefix of the script's note (line 169).\<close>

definition note_script_prefix :: string where
  "note_script_prefix = [CHR 0xD7, CHR 0x90, CHR 0xD7, CHR 0x99, CHR 0x20, CHR 0xD7, CHR 0x94, CHR 0xD7, CHR 0xAA, CHR 0xD7, CHR 0x90, CHR 0xD7, CHR 0x9E, CHR 0xD7, CHR 0x94, CHR 0x20, CHR 0xD7, CHR 0x91, CHR 0x3A, CHR 0x20]"

text \<open>
  Lines 131 to 169, for a link both sources have: the five flags, then the names of the
  fields that disagree, and the note when there is one. When all four fields agree the
  note cell is not assigned.
\<close>

definition agree_script :: "pylib \<Rightarrow> series \<Rightarrow> series \<Rightarrow> string \<Rightarrow> bool" where
  "agree_script L complot_row layer_row name =
     compare_values_script L (series_get complot_row name PNone) (series_get layer_row name PNone)"

definition compare_script :: "pylib \<Rightarrow> series \<Rightarrow> series \<Rightarrow> nat \<Rightarrow> table \<Rightarrow> table" where
  "compare_script L complot_row layer_row i t =
     (let t1 = loc_set i (Out Cmp_link) (PBool True) t;
          t2 = loc_set i (Out Cmp_gush) (PBool (agree_script L complot_row layer_row col_gush)) t1;
          t3 = loc_set i (Out Cmp_helka) (PBool (agree_script L complot_row layer_row col_helka)) t2;
          t4 = loc_set i (Out Cmp_migrash)
                 (PBool (agree_script L complot_row layer_row col_migrash)) t3;
          t5 = loc_set i (Out Cmp_address)
                 (PBool (agree_script L complot_row layer_row col_address)) t4;
          d0 = [];
          d1 = (if \<not> agree_script L complot_row layer_row col_gush then d0 @ [col_gush] else d0);
          d2 = (if \<not> agree_script L complot_row layer_row col_helka then d1 @ [col_helka] else d1);
          d3 = (if \<not> agree_script L complot_row layer_row col_migrash
                then d2 @ [col_migrash] else d2);
          discrepancies = (if \<not> agree_script L complot_row layer_row col_address
                           then d3 @ [col_address] else d3)
      in if discrepancies \<noteq> []
         then loc_set i (Out Remarks) (PStr (note_script_prefix @ join '', '' discrepancies)) t5
         else t5)"

text \<open>
  The body of the loop (lines 86 to 171) for the \<open>i\<close>-th link. The state is the table and
  the counters \<^verbatim>\<open>matches_found\<close> and \<^verbatim>\<open>rows_filled\<close>. The two selections read the key
  column without a test that it is there.
\<close>

definition script_body ::
  "pylib \<Rightarrow> frame \<Rightarrow> frame \<Rightarrow> nat \<Rightarrow> pyval \<Rightarrow> table \<times> nat \<times> nat \<Rightarrow>
   pyerr + table \<times> nat \<times> nat" where
  "script_body L complot_df layer_df i file_link st =
     (case st of (filled, matches_found, rows_filled) \<Rightarrow>
       (if isna file_link then Inr st
        else (case select_eq complot_df col_link file_link of
                Inl e \<Rightarrow> Inl e
              | Inr complot_match \<Rightarrow>
                  (case select_eq layer_df col_link file_link of
                     Inl e \<Rightarrow> Inl e
                   | Inr layer_match \<Rightarrow>
                       (if complot_match \<noteq> [] \<or> layer_match \<noteq> []
                        then (let f1 = (if i \<ge> length (trows filled)
                                        then add_row filled else filled);
                                  f2 = (if complot_match \<noteq> []
                                        then fill_fields complot_fields
                                               (columns complot_df, hd complot_match) i f1
                                        else f1);
                                  f3 = (if layer_match \<noteq> []
                                        then fill_fields layer_fields
                                               (columns layer_df, hd layer_match) i f2
                                        else f2)
                              in if complot_match \<noteq> [] \<and> layer_match \<noteq> []
                                 then Inr (compare_script L (columns complot_df, hd complot_match)
                                             (columns layer_df, hd layer_match) i f3,
                                           matches_found + 1, rows_filled + 1)
                                 else Inr (f3, matches_found, rows_filled + 1))
                        else Inr st)))))"

fun script_loop ::
  "pylib \<Rightarrow> frame \<Rightarrow> frame \<Rightarrow> (nat \<times> pyval) list \<Rightarrow> table \<times> nat \<times> nat \<Rightarrow>
   pyerr + table \<times> nat \<times> nat" where
  "script_loop L complot_df layer_df [] st = Inr st"
| "script_loop L complot_df layer_df (step # steps) st =
     (case script_body L complot_df layer_df (fst step) (snd step) st of
        Inl e \<Rightarrow> Inl e
      | Inr st' \<Rightarrow> script_loop L complot_df layer_df steps st')"

text \<open>
  Lines 75 to 79: the set of links, each source adding the links of its key column when it
  has one.
\<close>

definition script_links :: "frame \<Rightarrow> frame \<Rightarrow> pyval list" where
  "script_links complot_df layer_df =
     (let s0 = [];
          s1 = (if col_link \<in> set (columns complot_df)
                then (case getitem complot_df col_link of
                        Inr cells \<Rightarrow> set_union s0 (unique (dropna cells)) | Inl e \<Rightarrow> s0)
                else s0)
      in if col_link \<in> set (columns layer_df)
         then (case getitem layer_df col_link of
                 Inr cells \<Rightarrow> set_union s1 (unique (dropna cells)) | Inl e \<Rightarrow> s1)
         else s1)"

text \<open>\<^verbatim>\<open>enumerate(xs)\<close>.\<close>

definition enumerate_from0 :: "'a list \<Rightarrow> (nat \<times> 'a) list" where
  "enumerate_from0 xs = zip [0 ..< length xs] xs"

text \<open>
  \<^verbatim>\<open>main\<close> from line 70 to line 174, on the two source tables as lines 56 to 67 leave
  them and the recommendations table: the links are met in the order the set gives them,
  and the rows that are all null are dropped at the end. The result is the table that is
  written, with \<^verbatim>\<open>matches_found\<close> and \<^verbatim>\<open>rows_filled\<close>.
\<close>

definition script_fill ::
  "pylib \<Rightarrow> frame \<Rightarrow> frame \<Rightarrow> table \<Rightarrow> pyerr + table \<times> nat \<times> nat" where
  "script_fill L complot_df layer_df rec_df =
     (case script_loop L complot_df layer_df
             (enumerate_from0 (set_iter L (script_links complot_df layer_df))) (rec_df, 0, 0) of
        Inl e \<Rightarrow> Inl e
      | Inr (filled, matches_found, rows_filled) \<Rightarrow>
          Inr (dropna_all filled, matches_found, rows_filled))"

text \<open>
  Example inputs of the script and of the engine: a recommendations table without rows and
  one with two filled rows; source tables with one link, with no row, with the numbers 1
  and 2 as links, and without the key column; and a table whose link A1 agrees with
  \<open>example_complot\<close> in every field.
\<close>

definition empty_table :: table where
  "empty_table = \<lparr> tcolumns = [Out Remarks], trows = [] \<rparr>"

definition example_template :: table where
  "example_template =
     \<lparr> tcolumns = [Other ''id'', Out Remarks],
       trows = [[Other ''id'' \<mapsto> PInt 1, Out Remarks \<mapsto> PStr ''first''],
                [Other ''id'' \<mapsto> PInt 2, Out Remarks \<mapsto> PStr ''second'']] \<rparr>"

definition example_one_link :: frame where
  "example_one_link =
     \<lparr> columns = [col_link, col_gush, col_helka, col_migrash, col_address],
       frame_rows = [[PStr ''A1'', PFloat (Fin 12), PFloat (Fin 5), PFloat NaN, PStr ''Main St 1'']] \<rparr>"

definition example_no_rows :: frame where
  "example_no_rows =
     \<lparr> columns = [col_link, col_gush, col_helka, col_migrash, col_address], frame_rows = [] \<rparr>"

definition example_number_links :: frame where
  "example_number_links =
     \<lparr> columns = [col_link, col_gush, col_helka, col_migrash, col_address],
       frame_rows = [[PInt 1, PFloat (Fin 12), PFloat (Fin 5), PFloat NaN, PFloat NaN],
                     [PInt 2, PFloat (Fin 12), PFloat (Fin 6), PFloat NaN, PFloat NaN]] \<rparr>"

definition example_no_key :: frame where
  "example_no_key =
     \<lparr> columns = [col_gush, col_helka, col_migrash, col_address],
       frame_rows = [[PFloat (Fin 12), PFloat (Fin 5), PFloat NaN, PStr ''Main St 1'']] \<rparr>"

text \<open>The links of the rows of the script's table and of the engine's, and their notes.\<close>

definition table_links :: "table \<Rightarrow> pyval list" where
  "table_links t =
     map (\<lambda>r. case r (Out C_link) of Some v \<Rightarrow> v
               | None \<Rightarrow> (case r (Out L_link) of Some v \<Rightarrow> v | None \<Rightarrow> PNone)) (trows t)"

definition table_notes :: "table \<Rightarrow> pyval option list" where
  "table_notes t = map (\<lambda>r. r (Out Remarks)) (trows t)"

definition script_result :: "(table \<Rightarrow> 'a) \<Rightarrow> pyerr + table \<times> nat \<times> nat \<Rightarrow> pyerr + 'a" where
  "script_result f r = (case r of Inl e \<Rightarrow> Inl e | Inr (t, m, n) \<Rightarrow> Inr (f t))"

definition engine_result ::
  "(merged_row list \<Rightarrow> 'a) \<Rightarrow> pyerr + merged_row list \<times> nat \<times> nat \<times> nat \<Rightarrow> pyerr + 'a" where
  "engine_result f r = (case r of Inl e \<Rightarrow> Inl e | Inr (rows, p, q, n) \<Rightarrow> Inr (f rows))"

definition engine_counts ::
  "pyerr + merged_row list \<times> nat \<times> nat \<times> nat \<Rightarrow> pyerr + nat \<times> nat \<times> nat" where
  "engine_counts r = (case r of Inl e \<Rightarrow> Inl e | Inr (rows, p, q, n) \<Rightarrow> Inr (p, q, n))"




text \<open>The notes and the links of the rows of the engine's table.\<close>

definition row_notes :: "merged_row list \<Rightarrow> pyval option list" where
  "row_notes rows = map (\<lambda>r. r Remarks) rows"


section \<open>Properties of the normaliser and the comparator\<close>

lemma isna_simps [simp]:
  "isna PNone" "isna (PFloat NaN)" "\<not> isna (PInt i)" "\<not> isna (PBool b)" "\<not> isna (PStr s)"
  "isna (PFloat f) = (f = NaN)"
  by (simp_all add: isna_def)

text \<open>
  The comparator of \<^verbatim>\<open>TableFiller\<close> does what the specification says of \<open>equal\<close>: true
  when both values are absent, false when exactly one is, and otherwise whether the
  trimmed, lower-cased texts of the two values are the same. It is a total function on
  cell values and has no raising path.
\<close>

lemma compare_values_tablefiller:
  "(isna a \<and> isna b \<longrightarrow> compare_values L a b = True) \<and>
   (isna a \<noteq> isna b \<longrightarrow> compare_values L a b = False) \<and>
   (\<not> isna a \<and> \<not> isna b \<longrightarrow>
      compare_values L a b =
        (str_lower L (str_strip L (py_str L a)) = str_lower L (str_strip L (py_str L b))))"
  by (auto simp: compare_values_def Let_def)

text \<open>
  The comparator of the stand-alone script has the same null handling and compares the
  trimmed texts as they are.
\<close>

lemma compare_values_script_trims:
  "(isna a \<and> isna b \<longrightarrow> compare_values_script L a b = True) \<and>
   (isna a \<noteq> isna b \<longrightarrow> compare_values_script L a b = False) \<and>
   (\<not> isna a \<and> \<not> isna b \<longrightarrow>
      compare_values_script L a b = (str_strip L (py_str L a) = str_strip L (py_str L b)))"
  by (auto simp: compare_values_script_def)

text \<open>
  C1. The claim has \<open>equal\<close> compare the trimmed texts without regard to letter case.
  \<^verbatim>\<open>compare_values\<close> of \<^verbatim>\<open>scripts/auto_fill_table.py\<close> has no \<^verbatim>\<open>lower()\<close>: on the texts
  \<^verbatim>\<open>'A'\<close> and \<^verbatim>\<open>'a'\<close>, which differ in case only, it returns false, where
  \<^verbatim>\<open>TableFiller.compare_values\<close> returns true as the claim says.
\<close>

theorem compare_values_script_case_sensitive:
  "compare_values_script sample_lib (PStr ''A'') (PStr ''a'') = False \<and>
   compare_values sample_lib (PStr ''A'') (PStr ''a'') = True"
  by code_simp

text \<open>
  The normaliser of \<^verbatim>\<open>TableFiller\<close> does what the specification says of
  \<open>normalize_numeric\<close>: absent (NaN) for a null, the empty string, the string \<^verbatim>\<open>nan\<close>
  and the null marker \<^verbatim>\<open><Null>\<close>; for every other value the float the conversion gives
  when it succeeds and the value itself when the conversion raises. The only statement
  that can raise is the conversion, inside the \<^verbatim>\<open>try\<close>.
\<close>

lemma clean_numeric_field_tablefiller:
  "(isna v \<or> v = PStr '''' \<or> v = PStr ''nan'' \<or> v = PStr ''<Null>'' \<longrightarrow>
      clean_numeric_field L v = PFloat NaN) \<and>
   (\<not> (isna v \<or> v = PStr '''' \<or> v = PStr ''nan'' \<or> v = PStr ''<Null>'') \<longrightarrow>
      (\<forall>f. py_float L v = Some f \<longrightarrow> clean_numeric_field L v = PFloat f) \<and>
      (py_float L v = None \<longrightarrow> clean_numeric_field L v = v))"
  by (auto simp: clean_numeric_field_def)

text \<open>
  C2. The claim has the normaliser return absent for the empty string.
  \<^verbatim>\<open>clean_numeric_field\<close> of \<^verbatim>\<open>scripts/auto_fill_table.py\<close> has no test for it: the empty
  string reaches \<^verbatim>\<open>float('')\<close>, which raises \<^verbatim>\<open>ValueError\<close>, and comes back unchanged,
  where \<^verbatim>\<open>TableFiller.clean_numeric_field\<close> returns NaN as the claim says.
\<close>

theorem clean_numeric_field_script_empty:
  "clean_numeric_field_script sample_lib (PStr '''') = PStr '''' \<and>
   clean_numeric_field sample_lib (PStr '''') = PFloat NaN"
  by code_simp

text \<open>
  C9. The comparator is symmetric: \<open>equal(a, b) = equal(b, a)\<close> for all values, in
  \<^verbatim>\<open>TableFiller\<close> and in the stand-alone script alike.
\<close>

theorem compare_values_symmetric:
  "compare_values L a b = compare_values L b a \<and>
   compare_values_script L a b = compare_values_script L b a"
  by (auto simp: compare_values_def compare_values_script_def Let_def)

theorem compare_values_symmetric_witness:
  "compare_values sample_lib (PInt 5) (PStr ''5.0'') =
     compare_values sample_lib (PStr ''5.0'') (PInt 5) \<and>
   compare_values_script sample_lib (PInt 5) (PStr ''5.0'') =
     compare_values_script sample_lib (PStr ''5.0'') (PInt 5)"
  using compare_values_symmetric [of sample_lib "PInt 5" "PStr ''5.0''"]
  by simp

text \<open>
  C10. The comparator is reflexive: \<open>equal(v, v)\<close> is true for every value, the absent
  ones included, so two NaN compare equal although NaN differs from itself as a number.
\<close>

theorem compare_values_reflexive:
  "compare_values L v v \<and> compare_values_script L v v \<and>
   compare_values L (PFloat NaN) (PFloat NaN) \<and>
   compare_values_script L (PFloat NaN) (PFloat NaN)"
  by (simp add: compare_values_def compare_values_script_def)

theorem compare_values_reflexive_witness:
  "compare_values sample_lib PNone PNone \<and> compare_values_script sample_lib PNone PNone \<and>
   compare_values sample_lib (PFloat NaN) (PFloat NaN) \<and>
   compare_values_script sample_lib (PFloat NaN) (PFloat NaN)"
  using compare_values_reflexive [of sample_lib PNone]
  by simp

section \<open>Properties of the reconciliation\<close>

text \<open>
  C3. The claim has the note of a key found in both sources be the full match text when
  the four comparisons are true, and otherwise list the disagreeing fields with both values
  for block, parcel and plot. \<^verbatim>\<open>TableFiller.process_matches\<close> does: with the Complot table
  against itself both rows get the full match note, and against the Layer table the note
  of A1 names the parcel with \<^verbatim>\<open>5.0\<close> and \<^verbatim>\<open>6.0\<close>. \<^verbatim>\<open>main\<close> of
  \<^verbatim>\<open>scripts/auto_fill_table.py\<close> does not: on a full match it leaves the note cell
  unassigned, and on a mismatch it writes the names of the fields alone, with no value.
\<close>

theorem script_note_without_values:
  "script_result table_notes
     (script_fill sample_lib example_complot example_complot empty_table) =
     Inr [None, None] \<and>
   engine_result row_notes (process_matches sample_lib example_complot example_complot) =
     Inr [Some (PStr note_full_match), Some (PStr note_full_match)] \<and>
   script_result table_notes
     (script_fill sample_lib example_complot example_layer empty_table) =
     Inr [None, None, Some (PStr (note_script_prefix @ col_helka @ '', '' @ col_address))] \<and>
   engine_result row_notes (process_matches sample_lib example_complot example_layer) =
     Inr [Some (PStr (note_mismatch_prefix @ col_helka @ '' (5.0 '' @ neq_sign @ '' 6.0)'')),
          Some (PStr note_layer_only), Some (PStr note_complot_only)]"
  by code_simp

text \<open>
  C4. The claim has one merged row per key of the union, for every pair of tables.
  \<^verbatim>\<open>main\<close> of \<^verbatim>\<open>scripts/auto_fill_table.py\<close> fills the rows of the recommendations table
  in place: with a recommendations table of two filled rows and the single link A1 it
  writes two rows, the second one with no link. \<^verbatim>\<open>TableFiller.process_matches\<close> builds
  one row, and returns 1 as the number of rows, on the same sources; but when the links of
  one table are numbers and those of the other are texts, \<^verbatim>\<open>sorted\<close> raises
  \<^verbatim>\<open>TypeError\<close> and it builds no row at all.
\<close>

theorem rows_not_one_per_key:
  "script_result table_links
     (script_fill sample_lib example_one_link example_no_rows example_template) =
     Inr [PStr ''A1'', PNone] \<and>
   engine_result (map row_key) (process_matches sample_lib example_one_link example_no_rows) =
     Inr [PStr ''A1''] \<and>
   engine_counts (process_matches sample_lib example_one_link example_no_rows) =
     Inr (0, 0, 1) \<and>
   engine_counts (process_matches sample_lib example_number_links example_layer) =
     Inl TypeError"
  by code_simp

text \<open>
  C5. The claim has the loop meet the links in sorted order, the same in every run.
  \<^verbatim>\<open>TableFiller.process_matches\<close> sorts: the rows of the example tables come out as A1,
  B2, C3. \<^verbatim>\<open>main\<close> of \<^verbatim>\<open>scripts/auto_fill_table.py\<close> loops over the set itself, in the
  order the set gives: B2, C3, A1 with one order of the set and A1, C3, B2 with another,
  neither of them ascending. Where \<^verbatim>\<open>TableFiller\<close> cannot sort, with numbers and texts
  among the links, it raises \<^verbatim>\<open>TypeError\<close>.
\<close>

theorem script_rows_in_set_order:
  "script_result table_links
     (script_fill sample_lib example_complot example_layer empty_table) =
     Inr [PStr ''B2'', PStr ''C3'', PStr ''A1''] \<and>
   script_result table_links
     (script_fill sample_lib_fifo example_complot example_layer empty_table) =
     Inr [PStr ''A1'', PStr ''C3'', PStr ''B2''] \<and>
   engine_result (map row_key) (process_matches sample_lib example_complot example_layer) =
     Inr [PStr ''A1'', PStr ''B2'', PStr ''C3''] \<and>
   engine_result (map row_key) (process_matches sample_lib_fifo example_complot example_layer) =
     Inr [PStr ''A1'', PStr ''B2'', PStr ''C3''] \<and>
   engine_result (map row_key) (process_matches sample_lib example_number_links example_layer) =
     Inl TypeError"
  by code_simp

text \<open>
  C6. The claim has the engine go on without failing when a source table has no key
  column. \<^verbatim>\<open>TableFiller.process_matches\<close> reads the column of both tables without a test
  (lines 96 and 97) and ends with \<^verbatim>\<open>KeyError\<close>. \<^verbatim>\<open>main\<close> of
  \<^verbatim>\<open>scripts/auto_fill_table.py\<close> tests for the column when it collects the links (lines 76
  to 79) but not when it selects the records of a link (line 90): with a link from the
  other table it ends with \<^verbatim>\<open>KeyError\<close> too. It goes through only when neither table
  has a link.
\<close>

theorem missing_key_column_raises:
  "engine_counts (process_matches sample_lib example_no_key example_layer) =
     Inl (KeyError col_link) \<and>
   engine_counts (process_matches sample_lib example_layer example_no_key) =
     Inl (KeyError col_link) \<and>
   script_result table_links (script_fill sample_lib example_no_key example_layer empty_table) =
     Inl (KeyError col_link) \<and>
   script_result table_links (script_fill sample_lib example_no_key example_no_key empty_table) =
     Inr []"
  by code_simp

section \<open>Properties of writing the results\<close>

text \<open>
  C8. \<^verbatim>\<open>save_results\<close> writes the table before the report: when \<^verbatim>\<open>to_excel\<close> raises,
  the call ends with that exception and has written nothing, the report least of all;
  when it succeeds, the table is the first file written and the only thing that can
  follow it is the report.
\<close>

theorem save_results_table_first:
  "(excel_error io output_path = Some e \<longrightarrow>
      save_results io now self output_path trace = (Inl e, trace)) \<and>
   (excel_error io output_path = None \<longrightarrow>
      (\<exists>rest. snd (save_results io now self output_path trace) =
                 trace @ ToExcel output_path (filled_df self) # rest \<and>
              (rest = [] \<or>
               rest = [WriteFile (py_replace ''.xlsx'' ''_report.txt'' output_path)
                         (report_text now self output_path)])))"
proof (intro conjI impI)
  assume "excel_error io output_path = Some e"
  then show "save_results io now self output_path trace = (Inl e, trace)"
    by (simp add: save_results_def)
next
  assume ok: "excel_error io output_path = None"
  show "\<exists>rest. snd (save_results io now self output_path trace) =
                 trace @ ToExcel output_path (filled_df self) # rest \<and>
              (rest = [] \<or>
               rest = [WriteFile (py_replace ''.xlsx'' ''_report.txt'' output_path)
                         (report_text now self output_path)])"
  proof (cases "open_error io (py_replace ''.xlsx'' ''_report.txt'' output_path)")
    case None
    then have "snd (save_results io now self output_path trace) =
        trace @ ToExcel output_path (filled_df self) #
          [WriteFile (py_replace ''.xlsx'' ''_report.txt'' output_path)
             (report_text now self output_path)]"
      using ok by (simp add: save_results_def Let_def)
    then show ?thesis by blast
  next
    case (Some err)
    then have "snd (save_results io now self output_path trace) =
        trace @ ToExcel output_path (filled_df self) # []"
      using ok by (simp add: save_results_def Let_def)
    then show ?thesis by blast
  qed
qed

theorem save_results_table_first_witness:
  "save_results io_excel_fails ''2025-01-01 10:00:00'' example_filler ''out.xlsx'' [] =
     (Inl (IOError ''out.xlsx''), []) \<and>
   (\<exists>rest. snd (save_results io_ok ''2025-01-01 10:00:00'' example_filler ''out.xlsx'' []) =
              [] @ ToExcel ''out.xlsx'' (filled_df example_filler) # rest \<and>
           (rest = [] \<or>
            rest = [WriteFile (py_replace ''.xlsx'' ''_report.txt'' ''out.xlsx'')
                      (report_text ''2025-01-01 10:00:00'' example_filler ''out.xlsx'')]))"
proof -
  have f: "excel_error io_excel_fails ''out.xlsx'' = Some (IOError ''out.xlsx'')"
    by (simp add: io_excel_fails_def)
  have k: "excel_error io_ok ''out.xlsx'' = None"
    by (simp add: io_ok_def)
  show ?thesis
    using save_results_table_first [of io_excel_fails "''out.xlsx''" "IOError ''out.xlsx''"
        "''2025-01-01 10:00:00''" example_filler "[]"]
      save_results_table_first [of io_ok "''out.xlsx''" "IOError ''out.xlsx''"
        "''2025-01-01 10:00:00''" example_filler "[]"]
    by (simp only: f k simp_thms)
qed




end
